theory Spec2Isabelle
  imports
    Complex_Main
    "HOL-Library.Char_ord"
    "HOL-Library.List_Lexorder"
    "HOL-Library.Product_Lexorder"
    "HOL-Library.Word"
begin

section \<open>Data model\<close>

text \<open>
  The dashboard (\<^verbatim>\<open>src/app1.py\<close>) works on pandas data frames. A frame is modelled
  column by column: the number of rows of its index and the list of its labelled columns,
  in order. Labels may repeat (header cleaning can make two labels equal), so the columns
  are an association list and not a map.

  A cell is a missing value (\<^verbatim>\<open>None\<close> and \<^verbatim>\<open>NaN\<close> alike: both are null for pandas),
  a Python integer, a number, or a string. Numbers are the real numbers the float
  denotes; rounding is not modelled. A character is read as the Unicode code point of
  the same number, so a string ranges over the first 256 code points.
\<close>

datatype cell = Null | IntV int | FloatV real | StrV string

record frame =
  nrows :: nat
  series :: "(string \<times> cell list) list"

datatype error = KeyError | ValueError

text \<open>\<^verbatim>\<open>df.columns\<close>: the labels, in order.\<close>

definition columns :: "frame \<Rightarrow> string list" where
  "columns df = map fst (series df)"

text \<open>All columns that carry a given label, in order.\<close>

definition columns_named :: "string \<Rightarrow> frame \<Rightarrow> cell list list" where
  "columns_named key df = map snd (filter (\<lambda>c. fst c = key) (series df))"

text \<open>
  \<^verbatim>\<open>df[key] = vals\<close> for a one-dimensional value: every column labelled \<open>key\<close> is
  replaced (pandas broadcasts over repeated labels); when there is none, the column is
  appended at the end.
\<close>

definition setitem :: "string \<Rightarrow> cell list \<Rightarrow> frame \<Rightarrow> frame" where
  "setitem key vals df =
     (if key \<in> set (columns df)
      then df\<lparr>series := map (\<lambda>c. if fst c = key then (key, vals) else c) (series df)\<rparr>
      else df\<lparr>series := series df @ [(key, vals)]\<rparr>)"

section \<open>The district coordinate table (lines 17-48)\<close>

definition district_coords :: "(string \<times> real \<times> real) list" where
  "district_coords =
    [(''Chennai'', (13.0827, 80.2707)),
     (''Coimbatore'', (11.0168, 76.9558)),
     (''Madurai'', (9.9252, 78.1198)),
     (''Tiruchirappalli'', (10.7905, 78.7047)),
     (''Salem'', (11.6643, 78.1460)),
     (''Erode'', (11.3410, 77.7172)),
     (''Vellore'', (12.9165, 79.1325)),
     (''Tirunelveli'', (8.7139, 77.7567)),
     (''Thoothukudi'', (8.7642, 78.1348)),
     (''Dindigul'', (10.3624, 77.9695)),
     (''Thanjavur'', (10.7870, 79.1378)),
     (''Kancheepuram'', (12.8342, 79.7036)),
     (''Cuddalore'', (11.7480, 79.7714)),
     (''Nagapattinam'', (10.7650, 79.8449)),
     (''Ramanathapuram'', (9.3639, 78.8395)),
     (''Krishnagiri'', (12.5186, 78.2137)),
     (''Dharmapuri'', (12.1357, 78.1582)),
     (''Villupuram'', (11.9400, 79.5000)),
     (''Namakkal'', (11.2202, 78.1652)),
     (''Karur'', (10.9601, 78.0766)),
     (''Nilgiris'', (11.4916, 76.7337)),
     (''Kanyakumari'', (8.0883, 77.5385)),
     (''Tiruvallur'', (13.1437, 79.9089)),
     (''Sivaganga'', (9.8433, 78.4800)),
     (''Virudhunagar'', (9.5680, 77.9624)),
     (''Ariyalur'', (11.1381, 79.0786)),
     (''Perambalur'', (11.2342, 78.8803)),
     (''Pudukkottai'', (10.3797, 78.8208)),
     (''Tiruvarur'', (10.7720, 79.6368)),
     (''Tiruppur'', (11.1085, 77.3411))]"

text \<open>
  \<^verbatim>\<open>district_coords.get(d, (11.0, 78.0))\<close> on a cell of the District column. Only a
  string can equal a key of the table; a missing value or a number gets the default.
\<close>

definition get_coords :: "cell \<Rightarrow> real \<times> real" where
  "get_coords d =
     (case d of
        StrV s \<Rightarrow> (case map_of district_coords s of Some p \<Rightarrow> p | None \<Rightarrow> (11.0, 78.0))
      | _ \<Rightarrow> (11.0, 78.0))"

section \<open>Strings (Python's \<^verbatim>\<open>str\<close> methods, on the first 256 code points)\<close>

text \<open>\<^verbatim>\<open>c.isspace()\<close>: U+0009-000D, U+001C-0020, U+0085 and U+00A0.\<close>

definition isspace :: "char \<Rightarrow> bool" where
  "isspace c =
     (let n = (of_char c :: nat)
      in (9 \<le> n \<and> n \<le> 13) \<or> (28 \<le> n \<and> n \<le> 32) \<or> n = 133 \<or> n = 160)"

text \<open>
  \<^verbatim>\<open>c.isdigit()\<close>: the ten decimal digits and the superscript digits U+00B2, U+00B3
  and U+00B9.
\<close>

definition isdigit :: "char \<Rightarrow> bool" where
  "isdigit c =
     (let n = (of_char c :: nat)
      in (48 \<le> n \<and> n \<le> 57) \<or> n = 178 \<or> n = 179 \<or> n = 185)"

text \<open>\<^verbatim>\<open>c.isdecimal()\<close>: the characters \<^verbatim>\<open>int\<close> reads as digits.\<close>

definition isdecimal :: "char \<Rightarrow> bool" where
  "isdecimal c = (let n = (of_char c :: nat) in 48 \<le> n \<and> n \<le> 57)"

definition digit_value :: "char \<Rightarrow> int" where
  "digit_value c = int (of_char c) - 48"

text \<open>
  \<^verbatim>\<open>int(s)\<close> for a string \<open>s\<close> of \<^verbatim>\<open>isdigit\<close> characters (the only strings the program
  converts): the decimal value, or \<^verbatim>\<open>ValueError\<close> when the string is empty or holds a
  character that is not a decimal digit. The interpreter's configurable limit on the
  number of digits is not modelled.
\<close>

definition int_of_str :: "string \<Rightarrow> error + int" where
  "int_of_str s =
     (if s \<noteq> [] \<and> list_all isdecimal s
      then Inr (foldl (\<lambda>n c. 10 * n + digit_value c) 0 s)
      else Inl ValueError)"

text \<open>\<^verbatim>\<open>s.strip()\<close> and \<^verbatim>\<open>s.replace("\n", " ")\<close>.\<close>

definition strip :: "string \<Rightarrow> string" where
  "strip s = rev (dropWhile isspace (rev (dropWhile isspace s)))"

definition replace_newline :: "string \<Rightarrow> string" where
  "replace_newline s = map (\<lambda>c. if c = CHR 0x0A then CHR '' '' else c) s"

section \<open>\<^verbatim>\<open>normalize_df\<close> (lines 53-76)\<close>

text \<open>Line 55: strip every label, then replace its newlines by spaces.\<close>

definition clean_columns :: "frame \<Rightarrow> frame" where
  "clean_columns df =
     df\<lparr>series := map (\<lambda>c. (replace_newline (strip (fst c)), snd c)) (series df)\<rparr>"

text \<open>Lines 58-62: the two renamed headers.\<close>

definition rename_map :: "(string \<times> string) list" where
  "rename_map = [(''No of wells Monitored'', ''Wells_Monitored''), (''S No'', ''SNo'')]"

definition rename :: "frame \<Rightarrow> frame" where
  "rename df =
     df\<lparr>series :=
          map (\<lambda>c. (case map_of rename_map (fst c) of Some l \<Rightarrow> l | None \<Rightarrow> fst c, snd c))
            (series df)\<rparr>"

text \<open>
  Lines 65-69: the value written into the Year column, or the \<^verbatim>\<open>ValueError\<close> of
  \<^verbatim>\<open>int\<close>.
\<close>

definition year_of :: "string \<Rightarrow> error + cell" where
  "year_of filename =
     (let year = filter isdigit filename
      in if year \<noteq> []
         then (case int_of_str year of Inl e \<Rightarrow> Inl e | Inr n \<Rightarrow> Inr (IntV n))
         else Inr Null)"

text \<open>
  Lines 73 and 74, right-hand sides: \<^verbatim>\<open>df["District"].map(lambda d: ...[i])\<close>.
  Without a District column the read raises \<^verbatim>\<open>KeyError\<close>. When the label District
  repeats, the read is a sub-frame, and the assignment of its image to a label that the
  frame lacks raises \<^verbatim>\<open>ValueError\<close>; on this path one of the two labels is lacking, so
  the call ends in that error, which the model returns here.
\<close>

definition district_map :: "(real \<times> real \<Rightarrow> real) \<Rightarrow> frame \<Rightarrow> error + cell list" where
  "district_map pick df =
     (case columns_named ''District'' df of
        [] \<Rightarrow> Inl KeyError
      | [ds] \<Rightarrow> Inr (map (\<lambda>d. FloatV (pick (get_coords d))) ds)
      | _ \<Rightarrow> Inl ValueError)"

definition inject_coords :: "frame \<Rightarrow> error + frame" where
  "inject_coords df =
     (case district_map fst df of
        Inl e \<Rightarrow> Inl e
      | Inr lat \<Rightarrow>
          (let df' = setitem ''Latitude'' lat df
           in case district_map snd df' of
                Inl e \<Rightarrow> Inl e
              | Inr lon \<Rightarrow> Inr (setitem ''Longitude'' lon df')))"

text \<open>
  The function on frames as values: the normalized frame, or the exception raised. The
  frame an exception leaves behind is not modelled.
\<close>

definition normalize_df :: "frame \<Rightarrow> string \<Rightarrow> error + frame" where
  "normalize_df df filename =
     (let df1 = rename (clean_columns df)
      in case year_of filename of
           Inl e \<Rightarrow> Inl e
         | Inr y \<Rightarrow>
             (let df2 = setitem ''Year'' (replicate (nrows df1) y) df1
              in if ''Latitude'' \<notin> set (columns df2) \<or> ''Longitude'' \<notin> set (columns df2)
                 then inject_coords df2
                 else Inr df2))"

text \<open>
  The function as the caller sees it: data frames are objects in a store, the argument
  \<^verbatim>\<open>df\<close> is a reference, every statement of the body updates the object the reference
  points to, and \<^verbatim>\<open>return df\<close> hands the reference back.
\<close>

type_synonym ref = nat

type_synonym store = "ref \<Rightarrow> frame"

definition update :: "ref \<Rightarrow> (frame \<Rightarrow> frame) \<Rightarrow> store \<Rightarrow> store" where
  "update r f h = h(r := f (h r))"

definition normalize_df_obj :: "store \<Rightarrow> ref \<Rightarrow> string \<Rightarrow> error + (store \<times> ref)" where
  "normalize_df_obj h df filename =
     (let h1 = update df clean_columns h;
          h2 = update df rename h1
      in case year_of filename of
           Inl e \<Rightarrow> Inl e
         | Inr y \<Rightarrow>
             (let h3 = update df (\<lambda>d. setitem ''Year'' (replicate (nrows d) y) d) h2
              in if ''Latitude'' \<notin> set (columns (h3 df)) \<or> ''Longitude'' \<notin> set (columns (h3 df))
                 then (case district_map fst (h3 df) of
                         Inl e \<Rightarrow> Inl e
                       | Inr lat \<Rightarrow>
                           (let h4 = update df (setitem ''Latitude'' lat) h3
                            in case district_map snd (h4 df) of
                                 Inl e \<Rightarrow> Inl e
                               | Inr lon \<Rightarrow> Inr (update df (setitem ''Longitude'' lon) h4, df)))
                 else Inr (h3, df)))"

section \<open>The filtered dataset and its aggregations\<close>

text \<open>
  The panels read six columns of the filtered frame. A row of it is a record of these
  columns, each value possibly missing: District is text, Year an integer (it comes from
  \<^verbatim>\<open>int\<close> in \<^verbatim>\<open>normalize_df\<close>), the other four are numbers.

  Minimum, Latitude and Longitude enter means and comparisons only, which pandas computes
  in floating point; their cells hold the real number the value denotes, and rounding is
  not modelled. Maximum also enters the difference of line 86, which is computed in the
  type of the column: a cell of Maximum is a 64-bit integer when the column is an
  \<^verbatim>\<open>int64\<close> column (every value of it an integer, none missing), where the difference
  wraps around, and a float otherwise.
\<close>

datatype number = Int64 "64 word" | Float64 real

definition to_float :: "number \<Rightarrow> real" where
  "to_float v = (case v of Int64 w \<Rightarrow> real_of_int (sint w) | Float64 x \<Rightarrow> x)"

record reading =
  District :: "string option"
  Year :: "int option"
  Minimum :: "real option"
  Maximum :: "number option"
  Latitude :: "real option"
  Longitude :: "real option"

text \<open>
  Numbers that may be \<^verbatim>\<open>NaN\<close>: a difference with a missing operand is missing, and a
  comparison with a missing operand is false.
\<close>

definition nan_sub :: "real option \<Rightarrow> real option \<Rightarrow> real option" where
  "nan_sub a b = (case a of None \<Rightarrow> None | Some x \<Rightarrow> (case b of None \<Rightarrow> None | Some y \<Rightarrow> Some (x - y)))"

definition nan_less :: "real option \<Rightarrow> real \<Rightarrow> bool" where
  "nan_less a c = (case a of None \<Rightarrow> False | Some x \<Rightarrow> x < c)"

definition nan_greater :: "real option \<Rightarrow> real \<Rightarrow> bool" where
  "nan_greater a c = (case a of None \<Rightarrow> False | Some x \<Rightarrow> x > c)"

text \<open>The reductions of a column skip missing values, and are missing when none is left.\<close>

definition dropna :: "'a option list \<Rightarrow> 'a list" where
  "dropna xs = concat (map (\<lambda>x. case x of None \<Rightarrow> [] | Some v \<Rightarrow> [v]) xs)"

definition mean :: "real option list \<Rightarrow> real option" where
  "mean xs =
     (let vs = dropna xs
      in if vs = [] then None else Some (sum_list vs / real (length vs)))"

definition median :: "real option list \<Rightarrow> real option" where
  "median xs =
     (let vs = sort (dropna xs); n = length vs
      in if n = 0 then None
         else if odd n then Some (vs ! (n div 2))
         else Some ((vs ! (n div 2 - 1) + vs ! (n div 2)) / 2))"

definition series_max :: "real option list \<Rightarrow> real option" where
  "series_max xs = (case dropna xs of [] \<Rightarrow> None | v # vs \<Rightarrow> Some (fold max vs v))"

definition series_min :: "real option list \<Rightarrow> real option" where
  "series_min xs = (case dropna xs of [] \<Rightarrow> None | v # vs \<Rightarrow> Some (fold min vs v))"

text \<open>
  \<^verbatim>\<open>x.max() - x.min()\<close> on a column of Maximum values (line 86). When every cell is a
  64-bit integer the column is an \<^verbatim>\<open>int64\<close> column: the largest and the smallest
  value are taken as signed integers, and their difference is a 64-bit difference. In
  any other case the column is a float column, and its integers stand for their values.
\<close>

definition smax :: "64 word \<Rightarrow> 64 word \<Rightarrow> 64 word" where
  "smax a b = (if sint a \<le> sint b then b else a)"

definition smin :: "64 word \<Rightarrow> 64 word \<Rightarrow> 64 word" where
  "smin a b = (if sint a \<le> sint b then a else b)"

definition is_int64 :: "number option \<Rightarrow> bool" where
  "is_int64 x = (case x of Some (Int64 w) \<Rightarrow> True | _ \<Rightarrow> False)"

definition int64_values :: "number option list \<Rightarrow> 64 word list" where
  "int64_values xs = concat (map (\<lambda>x. case x of Some (Int64 w) \<Rightarrow> [w] | _ \<Rightarrow> []) xs)"

definition floats :: "number option list \<Rightarrow> real option list" where
  "floats xs = map (map_option to_float) xs"

definition max_minus_min :: "number option list \<Rightarrow> number option" where
  "max_minus_min xs =
     (if xs \<noteq> [] \<and> list_all is_int64 xs
      then (case int64_values xs of
              [] \<Rightarrow> None
            | w # ws \<Rightarrow> Some (Int64 (fold smax ws w - fold smin ws w)))
      else map_option Float64 (nan_sub (series_max (floats xs)) (series_min (floats xs))))"

text \<open>
  \<^verbatim>\<open>df.groupby(keys)\<close>: rows with a missing key are dropped, and the groups come in
  ascending order of their keys.
\<close>

definition group_keys :: "('r \<Rightarrow> 'k option) \<Rightarrow> 'r list \<Rightarrow> ('k::linorder) list" where
  "group_keys key df = sort (remdups (dropna (map key df)))"

definition group_rows :: "('r \<Rightarrow> 'k option) \<Rightarrow> 'r list \<Rightarrow> 'k \<Rightarrow> 'r list" where
  "group_rows key df k = filter (\<lambda>r. key r = Some k) df"

definition district_year :: "reading \<Rightarrow> (string \<times> int) option" where
  "district_year r =
     (case District r of
        None \<Rightarrow> None
      | Some d \<Rightarrow> (case Year r of None \<Rightarrow> None | Some y \<Rightarrow> Some (d, y)))"

definition station :: "reading \<Rightarrow> (string \<times> real \<times> real) option" where
  "station r =
     (case District r of
        None \<Rightarrow> None
      | Some d \<Rightarrow>
          (case Latitude r of
             None \<Rightarrow> None
           | Some la \<Rightarrow> (case Longitude r of None \<Rightarrow> None | Some lo \<Rightarrow> Some (d, la, lo))))"

section \<open>\<^verbatim>\<open>calc_stats\<close> (lines 79-87)\<close>

record stats =
  st_District :: string
  st_Year :: int
  Mean_Min :: "real option"
  Mean_Max :: "real option"
  Median_Min :: "real option"
  Median_Max :: "real option"
  Range_MinMax :: "number option"

definition calc_stats :: "reading list \<Rightarrow> stats list" where
  "calc_stats df =
     map (\<lambda>k. let g = group_rows district_year df k
              in \<lparr>st_District = fst k, st_Year = snd k,
                  Mean_Min = mean (map Minimum g),
                  Mean_Max = mean (floats (map Maximum g)),
                  Median_Min = median (map Minimum g),
                  Median_Max = median (floats (map Maximum g)),
                  Range_MinMax = max_minus_min (map Maximum g)\<rparr>)
       (group_keys district_year df)"

section \<open>Recharge / decline (lines 139-154)\<close>

text \<open>Lines 139-144: the mean Minimum per district and year, sorted by both.\<close>

record yearly =
  yr_District :: string
  yr_Year :: int
  yr_Minimum :: "real option"

definition yearly_mean :: "reading list \<Rightarrow> yearly list" where
  "yearly_mean df =
     sort_key (\<lambda>r. (yr_District r, yr_Year r))
       (map (\<lambda>k. \<lparr>yr_District = fst k, yr_Year = snd k,
                   yr_Minimum = mean (map Minimum (group_rows district_year df k))\<rparr>)
          (group_keys district_year df))"

text \<open>
  Line 147: \<^verbatim>\<open>groupby("District")["Minimum"].diff()\<close>. Going down the rows, \<open>prev\<close>
  holds the Minimum of the last row seen of each district; a row's difference is taken
  against it, and is missing for the first row of a district.
\<close>

record change = yearly +
  DeltaWL :: "real option"

fun group_diff :: "(string \<Rightarrow> real option option) \<Rightarrow> yearly list \<Rightarrow> change list" where
  "group_diff prev [] = []"
| "group_diff prev (r # rs) =
     \<lparr>yr_District = yr_District r, yr_Year = yr_Year r, yr_Minimum = yr_Minimum r,
      DeltaWL = (case prev (yr_District r) of
                   None \<Rightarrow> None
                 | Some p \<Rightarrow> nan_sub (yr_Minimum r) p)\<rparr>
     # group_diff (prev(yr_District r \<mapsto> yr_Minimum r)) rs"

definition yearly_change :: "reading list \<Rightarrow> change list" where
  "yearly_change df = group_diff (\<lambda>d. None) (yearly_mean df)"

text \<open>
  For comparison, the differences of one column as the spec words them: nothing for the
  first entry (unless \<open>p\<close> gives an entry before it), then each entry minus the one
  before it.
\<close>

fun successive_diff :: "real option option \<Rightarrow> real option list \<Rightarrow> real option list" where
  "successive_diff p [] = []"
| "successive_diff p (m # ms) =
     (case p of None \<Rightarrow> None | Some q \<Rightarrow> nan_sub m q) # successive_diff (Some m) ms"

text \<open>
  Lines 152-154: the label of a row. The three strings of the source start with an
  arrow or a dash sign, then Recharge, Decline and Stable.
\<close>

datatype trend = Recharge | Decline | Stable

definition trend_label :: "real option \<Rightarrow> trend" where
  "trend_label x =
     (if nan_greater x 0 then Recharge else (if nan_less x 0 then Decline else Stable))"

record trend_row = change +
  Trend :: trend

definition trend_table :: "change list \<Rightarrow> trend_row list" where
  "trend_table yc =
     map (\<lambda>r. \<lparr>yr_District = yr_District r, yr_Year = yr_Year r, yr_Minimum = yr_Minimum r,
               DeltaWL = DeltaWL r, Trend = trend_label (DeltaWL r)\<rparr>) yc"

section \<open>Spatial comparison (lines 174-185)\<close>

record depth =
  ad_District :: string
  ad_Latitude :: real
  ad_Longitude :: real
  ad_Minimum :: "real option"

definition avg_depth :: "reading list \<Rightarrow> depth list" where
  "avg_depth df =
     map (\<lambda>k. \<lparr>ad_District = fst k, ad_Latitude = fst (snd k), ad_Longitude = snd (snd k),
                 ad_Minimum = mean (map Minimum (group_rows station df k))\<rparr>)
       (group_keys station df)"

text \<open>A circle marker: its location, radius and colour (the popup text is left out).\<close>

record marker =
  location :: "real \<times> real"
  radius :: nat
  color :: string

definition circle_marker :: "depth \<Rightarrow> marker" where
  "circle_marker row =
     \<lparr>location = (ad_Latitude row, ad_Longitude row),
      radius = 6,
      color = (if nan_less (ad_Minimum row) 5 then ''blue'' else ''red'')\<rparr>"

definition circle_markers :: "reading list \<Rightarrow> marker list" where
  "circle_markers df = map circle_marker (avg_depth df)"

section \<open>The panels as sequences of calls (lines 116-199)\<close>

text \<open>
  What a panel does is the list of the calls it makes, in program order: the aggregations (a call of \<^verbatim>\<open>calc_stats\<close>, a \<^verbatim>\<open>groupby\<close> with its keys,
  a \<^verbatim>\<open>melt\<close>) and the Streamlit and folium calls that put something on the page. The
  three messages of the source are named by what they say: "No data available for the
  selected filters." (line 121), "Not enough yearly data to calculate recharge/decline."
  (line 168) and "No depth range percentage columns found for distribution analysis."
  (line 199); the last two start with a warning sign.
\<close>

datatype message = No_data_available | Not_enough_yearly_data | No_depth_columns

datatype call =
    St_subheader string
  | Calc_stats
  | Groupby "string list"
  | Melt
  | St_dataframe
  | St_plotly_chart
  | St_warning message
  | St_info message
  | Folium_Map "real option \<times> real option"
  | CircleMarker marker
  | St_folium

text \<open>
  \<^verbatim>\<open>df_filtered.empty\<close>: the filtered frame comes from \<^verbatim>\<open>normalize_df\<close> and so has
  columns; it is empty when it has no row.
\<close>

definition empty :: "reading list \<Rightarrow> bool" where
  "empty df = (df = [])"

text \<open>Lines 116-121.\<close>

definition stats_panel :: "reading list \<Rightarrow> call list" where
  "stats_panel df_filtered =
     St_subheader ''Descriptive Statistics'' #
     (if \<not> empty df_filtered
      then [Calc_stats, Groupby [''District'', ''Year''], St_dataframe]
      else [St_warning No_data_available])"

text \<open>Lines 136-168.\<close>

definition recharge_panel :: "reading list \<Rightarrow> call list" where
  "recharge_panel df_filtered =
     St_subheader ''Recharge / Decline Analysis'' #
     Groupby [''District'', ''Year''] #
     Groupby [''District''] #
     (if \<not> list_all (\<lambda>r. DeltaWL r = None) (yearly_change df_filtered)
      then [St_dataframe, St_plotly_chart]
      else [St_info Not_enough_yearly_data])"

text \<open>
  Lines 173-185. The map is centred on the mean latitude and longitude of the stations.
  When no station is left both means are \<^verbatim>\<open>NaN\<close>, and \<^verbatim>\<open>folium.Map\<close> raises
  \<^verbatim>\<open>ValueError\<close> (location values cannot contain NaNs): the panel stops at that call,
  no marker is drawn and \<^verbatim>\<open>st_folium\<close> is not reached. The result is the list of the
  calls made and the exception raised, if any.
\<close>

definition spatial_panel :: "reading list \<Rightarrow> call list \<times> error option" where
  "spatial_panel df_filtered =
     (let centre = (mean (map (\<lambda>r. Some (ad_Latitude r)) (avg_depth df_filtered)),
                    mean (map (\<lambda>r. Some (ad_Longitude r)) (avg_depth df_filtered)));
          calls = [St_subheader ''Spatial Comparison of Stations'',
                   Groupby [''District'', ''Latitude'', ''Longitude''],
                   Folium_Map centre]
      in if fst centre = None \<or> snd centre = None
         then (calls, Some ValueError)
         else (calls @ map CircleMarker (circle_markers df_filtered) @ [St_folium], None))"

text \<open>
  Lines 190-199. The panel looks at the labels of the filtered frame, \<open>cols\<close>, for
  those that contain a percent sign.
\<close>

definition depth_panel :: "string list \<Rightarrow> reading list \<Rightarrow> call list" where
  "depth_panel cols df_filtered =
     St_subheader ''Depth Distribution by Ranges'' #
     (let depth_cols = filter (\<lambda>c. CHR ''%'' \<in> set c) cols
      in if depth_cols \<noteq> [] then [Melt, St_plotly_chart] else [St_info No_depth_columns])"

section \<open>Frames: assignment and lookup\<close>

lemma columns_setitem:
  "columns (setitem key vals df) =
     (if key \<in> set (columns df) then columns df else columns df @ [key])"
  by (simp add: setitem_def columns_def comp_def cong: map_cong)

lemma set_columns_setitem:
  "set (columns (setitem key vals df)) = insert key (set (columns df))"
  by (auto simp: columns_setitem)

lemma columns_named_setitem_other:
  "k \<noteq> key \<Longrightarrow> columns_named k (setitem key vals df) = columns_named k df"
proof -
  assume ne: "k \<noteq> key"
  have "map snd (filter (\<lambda>c. fst c = k) (map (\<lambda>c. if fst c = key then (key, vals) else c) cs))
        = map snd (filter (\<lambda>c. fst c = k) cs)" for cs :: "(string \<times> cell list) list"
    using ne by (induction cs) auto
  with ne show ?thesis by (simp add: setitem_def columns_named_def)
qed

lemma columns_named_setitem_same:
  "set (columns_named key (setitem key vals df)) = {vals}"
proof -
  have *: "key \<in> fst ` set cs \<Longrightarrow>
        set (map snd (filter (\<lambda>c. fst c = key) (map (\<lambda>c. if fst c = key then (key, vals) else c) cs)))
        = {vals}" for cs :: "(string \<times> cell list) list"
    by (induction cs) (auto split: if_splits)
  show ?thesis
  proof (cases "key \<in> set (columns df)")
    case True
    then show ?thesis
      using * [of "series df"] by (simp add: setitem_def columns_named_def columns_def)
  next
    case False
    then have "filter (\<lambda>c. fst c = key) (series df) = []"
      by (auto simp: columns_def filter_empty_conv)
    with False show ?thesis
      by (simp add: setitem_def columns_named_def)
  qed
qed

lemma district_map_Inr:
  "district_map pick df = Inr vs \<longleftrightarrow>
     (\<exists>ds. columns_named ''District'' df = [ds] \<and> vs = map (\<lambda>d. FloatV (pick (get_coords d))) ds)"
  by (auto simp: district_map_def split: list.splits)

lemma inject_coords_Inr:
  assumes "inject_coords df = Inr df'"
  shows "\<exists>ds. columns_named ''District'' df = [ds]
          \<and> df' = setitem ''Longitude'' (map (\<lambda>d. FloatV (snd (get_coords d))) ds)
                    (setitem ''Latitude'' (map (\<lambda>d. FloatV (fst (get_coords d))) ds) df)"
  using assms
  by (auto simp: inject_coords_def district_map_Inr columns_named_setitem_other Let_def
           split: sum.splits)

lemma inject_coords_returns:
  "columns_named ''District'' df = [ds] \<Longrightarrow>
   inject_coords df = Inr (setitem ''Longitude'' (map (\<lambda>d. FloatV (snd (get_coords d))) ds)
                    (setitem ''Latitude'' (map (\<lambda>d. FloatV (fst (get_coords d))) ds) df))"
  by (simp add: inject_coords_def district_map_def columns_named_setitem_other)


lemma columns_clean_rename_nrows [simp]:
  "nrows (rename df) = nrows df" "nrows (clean_columns df) = nrows df"
  by (simp_all add: rename_def clean_columns_def)

lemma normalize_df_Inr:
  "normalize_df df filename = Inr df' \<longleftrightarrow>
     (\<exists>y. year_of filename = Inr y \<and>
        (let df2 = setitem ''Year'' (replicate (nrows df) y) (rename (clean_columns df))
         in if ''Latitude'' \<in> set (columns df2) \<and> ''Longitude'' \<in> set (columns df2)
            then df' = df2 else inject_coords df2 = Inr df'))"
  by (auto simp: normalize_df_def Let_def split: sum.splits)

lemma normalize_df_obj_eq:
  "normalize_df_obj h df filename =
     (case normalize_df (h df) filename of
        Inl e \<Rightarrow> Inl e
      | Inr d \<Rightarrow> Inr (h(df := d), df))"
  by (auto simp: normalize_df_obj_def normalize_df_def inject_coords_def Let_def update_def
      split: sum.splits)

lemma distinct_district_keys: "distinct (map fst district_coords)"
  by (simp add: district_coords_def)

lemma get_coords_key:
  "(s, p) \<in> set district_coords \<Longrightarrow> get_coords (StrV s) = p"
  using distinct_district_keys by (simp add: get_coords_def)

lemma get_coords_default:
  "s \<notin> fst ` set district_coords \<Longrightarrow> get_coords (StrV s) = (11, 78)"
  by (simp add: get_coords_def map_of_eq_None_iff [THEN iffD2])

lemma get_coords_spec:
  "case d of
     StrV s \<Rightarrow> (if s \<in> fst ` set district_coords
                then (s, get_coords d) \<in> set district_coords
                else get_coords d = (11, 78))
   | _ \<Rightarrow> get_coords d = (11, 78)"
proof (cases d)
  case (StrV s)
  show ?thesis
  proof (cases "s \<in> fst ` set district_coords")
    case True
    then obtain p where "(s, p) \<in> set district_coords" by auto
    with get_coords_key [OF this] StrV True show ?thesis by simp
  next
    case False
    with get_coords_default [OF this] StrV show ?thesis by simp
  qed
qed (simp_all add: get_coords_def)


lemma normalize_df_injected:
  assumes ok: "normalize_df df filename = Inr df'"
      and inj: "''Latitude'' \<notin> set (columns (rename (clean_columns df)))
                \<or> ''Longitude'' \<notin> set (columns (rename (clean_columns df)))"
  shows "\<exists>ds. columns_named ''District'' df' = [ds]
           \<and> columns_named ''District'' (rename (clean_columns df)) = [ds]
           \<and> set (columns_named ''Latitude'' df') = {map (\<lambda>d. FloatV (fst (get_coords d))) ds}
           \<and> set (columns_named ''Longitude'' df') = {map (\<lambda>d. FloatV (snd (get_coords d))) ds}"
proof -
  from ok obtain y where
    r: "let df2 = setitem ''Year'' (replicate (nrows df) y) (rename (clean_columns df))
         in if ''Latitude'' \<in> set (columns df2) \<and> ''Longitude'' \<in> set (columns df2)
            then df' = df2 else inject_coords df2 = Inr df'"
    unfolding normalize_df_Inr by blast
  define df2 where "df2 = setitem ''Year'' (replicate (nrows df) y) (rename (clean_columns df))"
  from inj have "\<not> (''Latitude'' \<in> set (columns df2) \<and> ''Longitude'' \<in> set (columns df2))"
    by (simp add: df2_def set_columns_setitem)
  with r have "inject_coords df2 = Inr df'"
    by (auto simp: df2_def Let_def)
  from inject_coords_Inr [OF this] obtain ds where
    ds: "columns_named ''District'' df2 = [ds]" and
    df': "df' = setitem ''Longitude'' (map (\<lambda>d. FloatV (snd (get_coords d))) ds)
                    (setitem ''Latitude'' (map (\<lambda>d. FloatV (fst (get_coords d))) ds) df2)"
    by blast
  have "columns_named ''District'' df' = [ds]"
    using ds by (simp add: df' columns_named_setitem_other)
  moreover have "columns_named ''District'' (rename (clean_columns df)) = [ds]"
    using ds by (simp add: df2_def columns_named_setitem_other)
  moreover have "set (columns_named ''Latitude'' df') = {map (\<lambda>d. FloatV (fst (get_coords d))) ds}"
    by (simp add: df' columns_named_setitem_other columns_named_setitem_same)
  moreover have "set (columns_named ''Longitude'' df') = {map (\<lambda>d. FloatV (snd (get_coords d))) ds}"
    by (simp add: df' columns_named_setitem_same)
  ultimately show ?thesis by blast
qed

lemma foldl_decimal:
  "foldl (\<lambda>n c. 10 * n + digit_value c) a s =
     a * 10 ^ length s + (\<Sum>i<length s. digit_value (s ! i) * 10 ^ (length s - 1 - i))"
proof (induction s rule: rev_induct)
  case Nil
  then show ?case by simp
next
  case (snoc c s)
  have "(\<Sum>i<length s. digit_value ((s @ [c]) ! i) * 10 ^ (length s - i))
        = (\<Sum>i<length s. 10 * (digit_value (s ! i) * 10 ^ (length s - 1 - i)))"
  proof (rule sum.cong)
    fix i assume "i \<in> {..<length s}"
    then have i: "i < length s" by simp
    then have "length s - i = Suc (length s - 1 - i)" by simp
    then have "(10::int) ^ (length s - i) = 10 * 10 ^ (length s - 1 - i)" by simp
    with i show "digit_value ((s @ [c]) ! i) * 10 ^ (length s - i)
                 = 10 * (digit_value (s ! i) * 10 ^ (length s - 1 - i))"
      by (simp add: nth_append)
  qed simp
  then show ?case
    using snoc by (simp add: sum_distrib_left algebra_simps)
qed

lemma year_of_decimal:
  assumes "filter isdigit filename \<noteq> []" and "list_all isdecimal (filter isdigit filename)"
  shows "year_of filename =
           Inr (IntV (let ds = filter isdigit filename
                      in \<Sum>i<length ds. digit_value (ds ! i) * 10 ^ (length ds - 1 - i)))"
  using assms by (simp add: year_of_def int_of_str_def foldl_decimal Let_def)

lemma year_of_no_digit:
  "filter isdigit filename = [] \<Longrightarrow> year_of filename = Inr Null"
  by (simp add: year_of_def)

lemma year_of_cases:
  "year_of filename =
     (if filter isdigit filename = [] then Inr Null
      else if list_all isdecimal (filter isdigit filename)
      then Inr (IntV (foldl (\<lambda>n c. 10 * n + digit_value c) 0 (filter isdigit filename)))
      else Inl ValueError)"
  by (simp add: year_of_def int_of_str_def Let_def)

lemma normalize_df_year:
  assumes ok: "normalize_df df filename = Inr df'"
  shows "\<exists>y. year_of filename = Inr y \<and> set (columns_named ''Year'' df') = {replicate (nrows df) y}"
proof -
  from ok obtain y where y: "year_of filename = Inr y" and
    r: "let df2 = setitem ''Year'' (replicate (nrows df) y) (rename (clean_columns df))
         in if ''Latitude'' \<in> set (columns df2) \<and> ''Longitude'' \<in> set (columns df2)
            then df' = df2 else inject_coords df2 = Inr df'"
    unfolding normalize_df_Inr by blast
  define df2 where "df2 = setitem ''Year'' (replicate (nrows df) y) (rename (clean_columns df))"
  have y2: "set (columns_named ''Year'' df2) = {replicate (nrows df) y}"
    by (simp add: df2_def columns_named_setitem_same)
  have "columns_named ''Year'' df' = columns_named ''Year'' df2"
  proof (cases "''Latitude'' \<in> set (columns df2) \<and> ''Longitude'' \<in> set (columns df2)")
    case True
    with r show ?thesis by (simp add: df2_def Let_def)
  next
    case False
    with r have "inject_coords df2 = Inr df'" by (auto simp add: df2_def Let_def)
    from inject_coords_Inr [OF this] show ?thesis
      by (auto simp: columns_named_setitem_other)
  qed
  with y y2 show ?thesis by simp
qed

lemma year_example: "year_of ''data_2020_v2.csv'' = Inr (IntV 20202)"
  by code_simp

lemma normalize_df_returns:
  assumes "list_all isdecimal (filter isdigit filename)"
      and "(''Latitude'' \<in> set (columns (rename (clean_columns df)))
            \<and> ''Longitude'' \<in> set (columns (rename (clean_columns df))))
           \<or> length (columns_named ''District'' (rename (clean_columns df))) = 1"
  shows "\<exists>df'. normalize_df df filename = Inr df'"
proof -
  from assms(1) have "\<exists>y. year_of filename = Inr y"
    by (simp add: year_of_cases)
  then obtain y where y: "year_of filename = Inr y" ..
  define df2 where "df2 = setitem ''Year'' (replicate (nrows df) y) (rename (clean_columns df))"
  show ?thesis
  proof (cases "''Latitude'' \<in> set (columns df2) \<and> ''Longitude'' \<in> set (columns df2)")
    case True
    then show ?thesis using y by (simp add: normalize_df_Inr df2_def Let_def)
  next
    case False
    with assms(2) have "length (columns_named ''District'' (rename (clean_columns df))) = 1"
      by (auto simp: df2_def set_columns_setitem)
    then have "length (columns_named ''District'' df2) = 1"
      by (simp add: df2_def columns_named_setitem_other)
    then obtain ds where "columns_named ''District'' df2 = [ds]"
      by (cases "columns_named ''District'' df2") auto
    from inject_coords_returns [OF this] False y show ?thesis
      by (auto simp: normalize_df_Inr df2_def Let_def)
  qed
qed

section \<open>Properties of \<^verbatim>\<open>normalize_df\<close>\<close>

text \<open>
  C1. The claim: a filename with a digit character gives every row the Year formed by
  all its digit characters, a filename without one gives a missing Year. The program
  picks the characters by \<^verbatim>\<open>isdigit\<close>, which holds for the superscript two (U+00B2),
  and converts them with \<^verbatim>\<open>int\<close>, which does not read that character: on a filename
  such as "wells_km(superscript 2)_2021.csv" the call raises \<^verbatim>\<open>ValueError\<close> for every
  frame, and no Year is set. (For filenames whose \<^verbatim>\<open>isdigit\<close> characters are all
  decimal digits the claim holds: \<open>year_of_decimal\<close>, \<open>year_of_no_digit\<close> and
  \<open>normalize_df_year\<close>.)
\<close>

theorem superscript_digit_raises:
  "normalize_df df (''wells_km'' @ [CHR 0xB2] @ ''_2021.csv'') = Inl ValueError"
proof -
  have "year_of (''wells_km'' @ [CHR 0xB2] @ ''_2021.csv'') = Inl ValueError"
    by code_simp
  then show ?thesis by (simp add: normalize_df_def)
qed

theorem superscript_digit_raises_witness:
  "isdigit (CHR 0xB2) \<and>
   normalize_df \<lparr>nrows = 1, series = [(''District'', [StrV ''Salem''])]\<rparr>
     (''wells_km'' @ [CHR 0xB2] @ ''_2021.csv'') = Inl ValueError"
proof -
  have "isdigit (CHR 0xB2)" by code_simp
  then show ?thesis
    using superscript_digit_raises [of "\<lparr>nrows = 1, series = [(''District'', [StrV ''Salem''])]\<rparr>"]
    by simp
qed

text \<open>
  C5. Whenever \<^verbatim>\<open>normalize_df\<close> injects coordinates (one of the two labels is absent
  after the header cleaning) and returns, the frame has one District column, and in every
  row the Latitude and the Longitude are the pair the table holds for the row's
  District, or (11.0, 78.0) when the District is not a key of the table: a string that
  differs from every key, a number or a missing value.
\<close>

theorem injected_coords_from_table:
  assumes ok: "normalize_df df filename = Inr df'"
      and inj: "''Latitude'' \<notin> set (columns (rename (clean_columns df)))
                \<or> ''Longitude'' \<notin> set (columns (rename (clean_columns df)))"
  shows "\<exists>ds. columns_named ''District'' df' = [ds]
           \<and> columns_named ''Latitude'' df' \<noteq> []
           \<and> columns_named ''Longitude'' df' \<noteq> []
           \<and> (\<forall>lats \<in> set (columns_named ''Latitude'' df').
               \<forall>lons \<in> set (columns_named ''Longitude'' df').
                 length lats = length ds \<and> length lons = length ds \<and>
                 (\<forall>i < length ds. \<exists>la lo.
                    lats ! i = FloatV la \<and> lons ! i = FloatV lo \<and>
                    (case ds ! i of
                       StrV s \<Rightarrow>
                         (if s \<in> fst ` set district_coords
                          then (s, la, lo) \<in> set district_coords
                          else (la, lo) = (11.0, 78.0))
                     | _ \<Rightarrow> (la, lo) = (11.0, 78.0))))"
proof -
  from normalize_df_injected [OF ok inj] obtain ds where
    d: "columns_named ''District'' df' = [ds]" and
    la: "set (columns_named ''Latitude'' df') = {map (\<lambda>d. FloatV (fst (get_coords d))) ds}" and
    lo: "set (columns_named ''Longitude'' df') = {map (\<lambda>d. FloatV (snd (get_coords d))) ds}"
    by blast
  have ne: "columns_named ''Latitude'' df' \<noteq> []" "columns_named ''Longitude'' df' \<noteq> []"
    using la lo by auto
  have row: "\<exists>la lo. map (\<lambda>d. FloatV (fst (get_coords d))) ds ! i = FloatV la
                  \<and> map (\<lambda>d. FloatV (snd (get_coords d))) ds ! i = FloatV lo
                  \<and> (case ds ! i of
                       StrV s \<Rightarrow>
                         (if s \<in> fst ` set district_coords
                          then (s, la, lo) \<in> set district_coords
                          else (la, lo) = (11.0, 78.0))
                     | _ \<Rightarrow> (la, lo) = (11.0, 78.0))" if "i < length ds" for i
  proof -
    have "case ds ! i of
            StrV s \<Rightarrow>
              (if s \<in> fst ` set district_coords
               then (s, fst (get_coords (ds ! i)), snd (get_coords (ds ! i))) \<in> set district_coords
               else (fst (get_coords (ds ! i)), snd (get_coords (ds ! i))) = (11.0, 78.0))
          | _ \<Rightarrow> (fst (get_coords (ds ! i)), snd (get_coords (ds ! i))) = (11.0, 78.0)"
      using get_coords_spec [of "ds ! i"] by (auto split: cell.splits if_splits)
    with that show ?thesis by auto
  qed
  show ?thesis
    using d ne la lo row by (intro exI [of _ ds]) auto
qed

theorem injected_coords_from_table_witness:
  "normalize_df \<lparr>nrows = 2, series = [(''District'', [StrV ''Chennai'', StrV ''chennai''])]\<rparr>
     ''levels2021.csv''
     = Inr \<lparr>nrows = 2,
            series = [(''District'', [StrV ''Chennai'', StrV ''chennai'']),
                      (''Year'', [IntV 2021, IntV 2021]),
                      (''Latitude'', [FloatV 13.0827, FloatV 11.0]),
                      (''Longitude'', [FloatV 80.2707, FloatV 78.0])]\<rparr>
   \<and> ''Latitude'' \<notin> set (columns (rename (clean_columns
         \<lparr>nrows = 2, series = [(''District'', [StrV ''Chennai'', StrV ''chennai''])]\<rparr>)))
   \<and> (''Chennai'', 13.0827, 80.2707) \<in> set district_coords
   \<and> ''chennai'' \<notin> fst ` set district_coords"
proof -
  have e: "normalize_df \<lparr>nrows = 2, series = [(''District'', [StrV ''Chennai'', StrV ''chennai''])]\<rparr>
     ''levels2021.csv''
     = Inr \<lparr>nrows = 2,
            series = [(''District'', [StrV ''Chennai'', StrV ''chennai'']),
                      (''Year'', [IntV 2021, IntV 2021]),
                      (''Latitude'', [FloatV 13.0827, FloatV 11.0]),
                      (''Longitude'', [FloatV 80.2707, FloatV 78.0])]\<rparr>"
    by code_simp
  have a: "''Latitude'' \<notin> set (columns (rename (clean_columns
         \<lparr>nrows = 2, series = [(''District'', [StrV ''Chennai'', StrV ''chennai''])]\<rparr>)))"
    by code_simp
  then have h: "''Latitude'' \<notin> set (columns (rename (clean_columns
         \<lparr>nrows = 2, series = [(''District'', [StrV ''Chennai'', StrV ''chennai''])]\<rparr>)))
      \<or> ''Longitude'' \<notin> set (columns (rename (clean_columns
         \<lparr>nrows = 2, series = [(''District'', [StrV ''Chennai'', StrV ''chennai''])]\<rparr>)))"
    by (rule disjI1)
  have k: "(''Chennai'', 13.0827, 80.2707) \<in> set district_coords"
    by (simp add: district_coords_def)
  have n: "''chennai'' \<notin> fst ` set district_coords"
    by (simp add: district_coords_def)
  from injected_coords_from_table [OF e h] e a k n show ?thesis
    by blast
qed

text \<open>
  C7. The frame \<^verbatim>\<open>normalize_df\<close> returns has a Year column, a Latitude column and a
  Longitude column, whatever the input frame and the filename. (\<open>normalize_df_returns\<close>
  says when it returns.)
\<close>

theorem normalize_df_has_columns:
  assumes "normalize_df df filename = Inr df'"
  shows "''Year'' \<in> set (columns df') \<and> ''Latitude'' \<in> set (columns df')
           \<and> ''Longitude'' \<in> set (columns df')"
proof -
  from assms obtain y where
    r: "let df2 = setitem ''Year'' (replicate (nrows df) y) (rename (clean_columns df))
         in if ''Latitude'' \<in> set (columns df2) \<and> ''Longitude'' \<in> set (columns df2)
            then df' = df2 else inject_coords df2 = Inr df'"
    unfolding normalize_df_Inr by blast
  define df2 where "df2 = setitem ''Year'' (replicate (nrows df) y) (rename (clean_columns df))"
  have y2: "''Year'' \<in> set (columns df2)"
    by (simp add: df2_def set_columns_setitem)
  show ?thesis
  proof (cases "''Latitude'' \<in> set (columns df2) \<and> ''Longitude'' \<in> set (columns df2)")
    case True
    with r have "df' = df2" by (simp add: df2_def Let_def)
    with True y2 show ?thesis by simp
  next
    case False
    with r have "inject_coords df2 = Inr df'" by (auto simp add: df2_def Let_def)
    from inject_coords_Inr [OF this] y2 show ?thesis
      by (auto simp: set_columns_setitem)
  qed
qed

theorem normalize_df_has_columns_witness:
  "normalize_df \<lparr>nrows = 1, series = [(''S No'', [IntV 1]), (''District '', [StrV ''Erode''])]\<rparr> ''gw.csv''
     = Inr \<lparr>nrows = 1,
            series = [(''SNo'', [IntV 1]), (''District'', [StrV ''Erode'']), (''Year'', [Null]),
                      (''Latitude'', [FloatV 11.3410]), (''Longitude'', [FloatV 77.7172])]\<rparr>
   \<and> ''Year'' \<in> set (columns \<lparr>nrows = 1,
            series = [(''SNo'', [IntV 1]), (''District'', [StrV ''Erode'']), (''Year'', [Null]),
                      (''Latitude'', [FloatV 11.3410]), (''Longitude'', [FloatV 77.7172])]\<rparr>)"
proof -
  have e: "normalize_df \<lparr>nrows = 1, series = [(''S No'', [IntV 1]), (''District '', [StrV ''Erode''])]\<rparr> ''gw.csv''
     = Inr \<lparr>nrows = 1,
            series = [(''SNo'', [IntV 1]), (''District'', [StrV ''Erode'']), (''Year'', [Null]),
                      (''Latitude'', [FloatV 11.3410]), (''Longitude'', [FloatV 77.7172])]\<rparr>"
    by code_simp
  from normalize_df_has_columns [OF e] e show ?thesis by simp
qed

text \<open>
  C9. When exactly one of the labels Latitude and Longitude is among the cleaned labels of
  the input and the call returns, every Latitude column and every Longitude column of the
  result is computed from the District column through the table: the values of the
  coordinate column that was present are gone.
\<close>

theorem one_coordinate_column_replaced:
  assumes ok: "normalize_df df filename = Inr df'"
      and one: "(''Latitude'' \<in> set (columns (rename (clean_columns df))))
                \<noteq> (''Longitude'' \<in> set (columns (rename (clean_columns df))))"
  shows "\<exists>ds. columns_named ''District'' (rename (clean_columns df)) = [ds]
           \<and> set (columns_named ''Latitude'' df') = {map (\<lambda>d. FloatV (fst (get_coords d))) ds}
           \<and> set (columns_named ''Longitude'' df') = {map (\<lambda>d. FloatV (snd (get_coords d))) ds}"
proof -
  from one have "''Latitude'' \<notin> set (columns (rename (clean_columns df)))
                \<or> ''Longitude'' \<notin> set (columns (rename (clean_columns df)))"
    by blast
  from normalize_df_injected [OF ok this] show ?thesis by blast
qed

theorem one_coordinate_column_replaced_witness:
  "normalize_df
     \<lparr>nrows = 2, series = [(''District'', [StrV ''Salem'', Null]),
                           (''Latitude'', [FloatV 1.5, FloatV 2.5])]\<rparr>
     ''wl_2019.csv''
     = Inr \<lparr>nrows = 2,
            series = [(''District'', [StrV ''Salem'', Null]),
                      (''Latitude'', [FloatV 11.6643, FloatV 11.0]),
                      (''Year'', [IntV 2019, IntV 2019]),
                      (''Longitude'', [FloatV 78.1460, FloatV 78.0])]\<rparr>
   \<and> ''Latitude'' \<in> set (columns (rename (clean_columns
         \<lparr>nrows = 2, series = [(''District'', [StrV ''Salem'', Null]),
                               (''Latitude'', [FloatV 1.5, FloatV 2.5])]\<rparr>)))
   \<and> ''Longitude'' \<notin> set (columns (rename (clean_columns
         \<lparr>nrows = 2, series = [(''District'', [StrV ''Salem'', Null]),
                               (''Latitude'', [FloatV 1.5, FloatV 2.5])]\<rparr>)))"
proof -
  have e: "normalize_df
     \<lparr>nrows = 2, series = [(''District'', [StrV ''Salem'', Null]),
                           (''Latitude'', [FloatV 1.5, FloatV 2.5])]\<rparr>
     ''wl_2019.csv''
     = Inr \<lparr>nrows = 2,
            series = [(''District'', [StrV ''Salem'', Null]),
                      (''Latitude'', [FloatV 11.6643, FloatV 11.0]),
                      (''Year'', [IntV 2019, IntV 2019]),
                      (''Longitude'', [FloatV 78.1460, FloatV 78.0])]\<rparr>"
    by code_simp
  have a: "''Latitude'' \<in> set (columns (rename (clean_columns
         \<lparr>nrows = 2, series = [(''District'', [StrV ''Salem'', Null]),
                               (''Latitude'', [FloatV 1.5, FloatV 2.5])]\<rparr>)))"
    by code_simp
  have b: "''Longitude'' \<notin> set (columns (rename (clean_columns
         \<lparr>nrows = 2, series = [(''District'', [StrV ''Salem'', Null]),
                               (''Latitude'', [FloatV 1.5, FloatV 2.5])]\<rparr>)))"
    by code_simp
  from a b have h: "(''Latitude'' \<in> set (columns (rename (clean_columns
         \<lparr>nrows = 2, series = [(''District'', [StrV ''Salem'', Null]),
                               (''Latitude'', [FloatV 1.5, FloatV 2.5])]\<rparr>))))
      \<noteq> (''Longitude'' \<in> set (columns (rename (clean_columns
         \<lparr>nrows = 2, series = [(''District'', [StrV ''Salem'', Null]),
                               (''Latitude'', [FloatV 1.5, FloatV 2.5])]\<rparr>))))"
    by blast
  from one_coordinate_column_replaced [OF e h] e a b show ?thesis
    by blast
qed

lemma strip_ends:
  assumes "strip l \<noteq> []"
  shows "\<not> isspace (hd (strip l)) \<and> \<not> isspace (last (strip l))"
proof -
  define u where "u = dropWhile isspace l"
  define d where "d = dropWhile isspace (rev u)"
  have s: "strip l = rev d" by (simp add: strip_def u_def d_def)
  with assms have d: "d \<noteq> []" by simp
  then have u: "u \<noteq> []" by (auto simp: d_def)
  have "\<not> isspace (hd d)"
    using d unfolding d_def by (rule hd_dropWhile)
  then have l: "\<not> isspace (last (strip l))"
    using d by (simp add: s last_rev)
  have "d = drop (length (takeWhile isspace (rev u))) (rev u)"
    by (simp add: d_def dropWhile_eq_drop)
  moreover have "length (takeWhile isspace (rev u)) < length (rev u)"
    using d calculation by (metis drop_all leI)
  ultimately have "last d = last (rev u)"
    by (metis last_drop)
  then have "hd (strip l) = hd u"
    using d u by (simp add: s hd_rev last_rev)
  moreover have "\<not> isspace (hd u)"
    using u unfolding u_def by (rule hd_dropWhile)
  ultimately show ?thesis using l by simp
qed

lemma isspace_newline: "isspace (CHR 0x0A)"
  by (simp add: isspace_def)

lemma cleaned_label:
  "CHR 0x0A \<notin> set (replace_newline (strip l)) \<and>
   (replace_newline (strip l) \<noteq> [] \<longrightarrow>
      \<not> isspace (hd (replace_newline (strip l))) \<and> \<not> isspace (last (replace_newline (strip l))))"
proof (intro conjI impI)
  show "CHR 0x0A \<notin> set (replace_newline (strip l))"
    by (auto simp: replace_newline_def)
next
  assume "replace_newline (strip l) \<noteq> []"
  then have ne: "strip l \<noteq> []" by (simp add: replace_newline_def)
  from strip_ends [OF ne] have h: "hd (strip l) \<noteq> CHR 0x0A" and t: "last (strip l) \<noteq> CHR 0x0A"
    using isspace_newline by auto
  from ne h have "hd (replace_newline (strip l)) = hd (strip l)"
    by (simp add: replace_newline_def hd_map)
  moreover from ne t have "last (replace_newline (strip l)) = last (strip l)"
    by (simp add: replace_newline_def last_map)
  ultimately show "\<not> isspace (hd (replace_newline (strip l)))"
    and "\<not> isspace (last (replace_newline (strip l)))"
    using strip_ends [OF ne] by simp_all
qed

lemma columns_rename_clean:
  "columns (rename (clean_columns df)) =
     map (\<lambda>l. let t = replace_newline (strip l)
              in if t = ''No of wells Monitored'' then ''Wells_Monitored''
                 else if t = ''S No'' then ''SNo'' else t) (columns df)"
  by (simp add: columns_def rename_def clean_columns_def rename_map_def comp_def Let_def)

lemma renamed_label:
  "let t = replace_newline (strip l);
       c = (if t = ''No of wells Monitored'' then ''Wells_Monitored''
            else if t = ''S No'' then ''SNo'' else t)
   in CHR 0x0A \<notin> set c \<and> (c \<noteq> [] \<longrightarrow> \<not> isspace (hd c) \<and> \<not> isspace (last c))
      \<and> c \<noteq> ''S No'' \<and> c \<noteq> ''No of wells Monitored''"
proof -
  have 1: "\<not> isspace (CHR ''W'')" "\<not> isspace (CHR ''d'')" "\<not> isspace (CHR ''S'')"
    "\<not> isspace (CHR ''o'')"
    by (simp_all add: isspace_def)
  show ?thesis
    using cleaned_label [of l] 1 by (auto simp: Let_def)
qed

lemma columns_setitem_filter:
  "columns (setitem key vals df) = columns df @ filter (\<lambda>l. l \<notin> set (columns df)) [key]"
  by (simp add: columns_setitem)

lemma normalize_df_labels:
  assumes "normalize_df df filename = Inr df'"
  shows "columns df' = columns (rename (clean_columns df))
           @ filter (\<lambda>l. l \<notin> set (columns (rename (clean_columns df))))
               [''Year'', ''Latitude'', ''Longitude'']"
proof -
  define cs where "cs = columns (rename (clean_columns df))"
  from assms obtain y where
    r: "let df2 = setitem ''Year'' (replicate (nrows df) y) (rename (clean_columns df))
         in if ''Latitude'' \<in> set (columns df2) \<and> ''Longitude'' \<in> set (columns df2)
            then df' = df2 else inject_coords df2 = Inr df'"
    unfolding normalize_df_Inr by blast
  define df2 where "df2 = setitem ''Year'' (replicate (nrows df) y) (rename (clean_columns df))"
  have c2: "columns df2 = cs @ filter (\<lambda>l. l \<notin> set cs) [''Year'']"
    unfolding df2_def cs_def by (rule columns_setitem_filter)
  have in2: "''Latitude'' \<in> set (columns df2) \<longleftrightarrow> ''Latitude'' \<in> set cs"
    "''Longitude'' \<in> set (columns df2) \<longleftrightarrow> ''Longitude'' \<in> set cs"
    by (simp_all add: c2)
  show ?thesis
  proof (cases "''Latitude'' \<in> set (columns df2) \<and> ''Longitude'' \<in> set (columns df2)")
    case True
    with r have "df' = df2" by (simp add: df2_def Let_def)
    moreover from True have "''Latitude'' \<in> set cs" "''Longitude'' \<in> set cs"
      by (simp_all add: in2)
    ultimately show ?thesis
      unfolding cs_def [symmetric] by (simp add: c2)
  next
    case False
    with r have "inject_coords df2 = Inr df'" by (auto simp add: df2_def Let_def)
    from inject_coords_Inr [OF this] obtain lat lon where
      df': "df' = setitem ''Longitude'' lon (setitem ''Latitude'' lat df2)" by blast
    define df3 where "df3 = setitem ''Latitude'' lat df2"
    have c3: "columns df3 = columns df2 @ filter (\<lambda>l. l \<notin> set (columns df2)) [''Latitude'']"
      unfolding df3_def by (rule columns_setitem_filter)
    have c4: "columns df' = columns df3 @ filter (\<lambda>l. l \<notin> set (columns df3)) [''Longitude'']"
      unfolding df' df3_def by (rule columns_setitem_filter)
    have in3: "''Longitude'' \<in> set (columns df3) \<longleftrightarrow> ''Longitude'' \<in> set cs"
      by (simp add: c3 in2)
    show ?thesis
      unfolding cs_def [symmetric] c4 in3 c3 in2 c2 by simp
  qed
qed

lemma normalize_df_obj_Inr:
  assumes "normalize_df_obj h df filename = Inr (h', res)"
  shows "\<exists>d. normalize_df (h df) filename = Inr d \<and> h' = h(df := d) \<and> res = df"
  using assms by (auto simp: normalize_df_obj_eq split: sum.splits)

lemma renamed_labels_clean:
  "list_all (\<lambda>c. CHR 0x0A \<notin> set c
                    \<and> (c \<noteq> [] \<longrightarrow> \<not> isspace (hd c) \<and> \<not> isspace (last c))
                    \<and> c \<noteq> ''S No'' \<and> c \<noteq> ''No of wells Monitored'')
     (map (\<lambda>l. let t = replace_newline (strip l)
               in if t = ''No of wells Monitored'' then ''Wells_Monitored''
                  else if t = ''S No'' then ''SNo'' else t) ls)"
proof (induction ls)
  case Nil
  then show ?case by simp
next
  case (Cons l ls)
  from renamed_label [of l] have
    "let c = (let t = replace_newline (strip l)
               in if t = ''No of wells Monitored'' then ''Wells_Monitored''
                  else if t = ''S No'' then ''SNo'' else t)
     in CHR 0x0A \<notin> set c \<and> (c \<noteq> [] \<longrightarrow> \<not> isspace (hd c) \<and> \<not> isspace (last c))
        \<and> c \<noteq> ''S No'' \<and> c \<noteq> ''No of wells Monitored''"
    unfolding Let_def .
  then show ?case
    using Cons.IH unfolding Let_def list.map list.pred_inject by (rule conjI)
qed

text \<open>
  C10. \<^verbatim>\<open>normalize_df\<close> works on the object it is given. When it returns, the reference
  it returns is its argument, and no other object of the store has changed. The object
  behind the argument has become the normalized frame: its old labels are cleaned and
  renamed in place (no label keeps a newline, an outer white space, or one of the two
  headers that are renamed), and the labels Year, Latitude and Longitude that it lacked
  are appended to it. So the caller's frame and the returned frame are one.
\<close>

theorem normalize_df_in_place:
  assumes "normalize_df_obj h df filename = Inr (h', res)"
  shows "res = df
         \<and> (\<forall>q. q \<noteq> df \<longrightarrow> h' q = h q)
         \<and> normalize_df (h df) filename = Inr (h' df)
         \<and> (let cs = map (\<lambda>l. let t = replace_newline (strip l)
                               in if t = ''No of wells Monitored'' then ''Wells_Monitored''
                                  else if t = ''S No'' then ''SNo'' else t) (columns (h df))
            in columns (h' df)
                 = cs @ filter (\<lambda>l. l \<notin> set cs) [''Year'', ''Latitude'', ''Longitude'']
               \<and> list_all (\<lambda>c. CHR 0x0A \<notin> set c
                              \<and> (c \<noteq> [] \<longrightarrow> \<not> isspace (hd c) \<and> \<not> isspace (last c))
                              \<and> c \<noteq> ''S No'' \<and> c \<noteq> ''No of wells Monitored'') cs)"
proof -
  from normalize_df_obj_Inr [OF assms] obtain d where d: "normalize_df (h df) filename = Inr d"
    and h': "h' = h(df := d)" and res: "res = df"
    by blast
  have same: "h' df = d" and others: "\<forall>q. q \<noteq> df \<longrightarrow> h' q = h q"
    by (simp_all add: h')
  have labels: "columns (h' df)
         = map (\<lambda>l. let t = replace_newline (strip l)
                               in if t = ''No of wells Monitored'' then ''Wells_Monitored''
                                  else if t = ''S No'' then ''SNo'' else t) (columns (h df))
           @ filter (\<lambda>l. l \<notin> set (map (\<lambda>l. let t = replace_newline (strip l)
                               in if t = ''No of wells Monitored'' then ''Wells_Monitored''
                                  else if t = ''S No'' then ''SNo'' else t) (columns (h df))))
               [''Year'', ''Latitude'', ''Longitude'']"
    using normalize_df_labels [OF d] unfolding same columns_rename_clean .
  have d': "normalize_df (h df) filename = Inr (h' df)"
    using d by (simp only: same)
  show ?thesis
    unfolding Let_def
    by (intro conjI res others d' labels [unfolded Let_def] renamed_labels_clean [unfolded Let_def])
qed

theorem normalize_df_in_place_witness:
  "normalize_df_obj
     ((\<lambda>r. \<lparr>nrows = 0, series = []\<rparr>)
        (7 := \<lparr>nrows = 1,
               series = [(''S No'', [IntV 1]), ('' District '', [StrV ''Karur'']),
                         (''No of wells'' @ [CHR 0x0A] @ ''Monitored'', [IntV 3])]\<rparr>))
     7 ''gw2020.csv''
   = Inr ((\<lambda>r. \<lparr>nrows = 0, series = []\<rparr>)
            (7 := \<lparr>nrows = 1,
                   series = [(''SNo'', [IntV 1]), (''District'', [StrV ''Karur'']),
                             (''Wells_Monitored'', [IntV 3]), (''Year'', [IntV 2020]),
                             (''Latitude'', [FloatV 10.9601]),
                             (''Longitude'', [FloatV 78.0766])]\<rparr>), 7)"
proof -
  have e: "normalize_df
      \<lparr>nrows = 1,
       series = [(''S No'', [IntV 1]), ('' District '', [StrV ''Karur'']),
                 (''No of wells'' @ [CHR 0x0A] @ ''Monitored'', [IntV 3])]\<rparr> ''gw2020.csv''
    = Inr \<lparr>nrows = 1,
           series = [(''SNo'', [IntV 1]), (''District'', [StrV ''Karur'']),
                     (''Wells_Monitored'', [IntV 3]), (''Year'', [IntV 2020]),
                     (''Latitude'', [FloatV 10.9601]),
                     (''Longitude'', [FloatV 78.0766])]\<rparr>"
    by code_simp
  have r: "normalize_df_obj
     ((\<lambda>r. \<lparr>nrows = 0, series = []\<rparr>)
        (7 := \<lparr>nrows = 1,
               series = [(''S No'', [IntV 1]), ('' District '', [StrV ''Karur'']),
                         (''No of wells'' @ [CHR 0x0A] @ ''Monitored'', [IntV 3])]\<rparr>))
     7 ''gw2020.csv''
   = Inr ((\<lambda>r. \<lparr>nrows = 0, series = []\<rparr>)
            (7 := \<lparr>nrows = 1,
                   series = [(''SNo'', [IntV 1]), (''District'', [StrV ''Karur'']),
                             (''Wells_Monitored'', [IntV 3]), (''Year'', [IntV 2020]),
                             (''Latitude'', [FloatV 10.9601]),
                             (''Longitude'', [FloatV 78.0766])]\<rparr>), 7)"
    unfolding normalize_df_obj_eq fun_upd_same e by simp
  show ?thesis
    using normalize_df_in_place [OF r] by (simp only: r)
qed

section \<open>Aggregations: groups and reductions\<close>

lemma set_dropna: "set (dropna xs) = {v. Some v \<in> set xs}"
  by (induction xs) (auto simp: dropna_def split: option.splits)

lemma set_group_keys: "set (group_keys key df) = {k. \<exists>r \<in> set df. key r = Some k}"
  by (force simp: group_keys_def set_dropna image_iff)

lemma distinct_group_keys: "distinct (group_keys key df)"
  by (simp add: group_keys_def)

lemma sorted_group_keys: "sorted (group_keys key df)"
  by (simp add: group_keys_def)

lemma district_year_Some:
  "district_year r = Some (d, y) \<longleftrightarrow> District r = Some d \<and> Year r = Some y"
  by (auto simp: district_year_def split: option.splits)




lemma group_rows_district_year:
  "group_rows district_year df (d, y) = filter (\<lambda>r. District r = Some d \<and> Year r = Some y) df"
  by (simp add: group_rows_def district_year_Some)

lemma group_rows_station:
  "group_rows station df k = filter (\<lambda>r. station r = Some k) df"
  by (simp add: group_rows_def)

section \<open>Properties of \<^verbatim>\<open>calc_stats\<close>\<close>














lemma calc_stats_example:
  "calc_stats
     [\<lparr>District = Some ''Chennai'', Year = Some 2021, Minimum = Some 4,
       Maximum = Some (Float64 6), Latitude = Some 13.0827, Longitude = Some 80.2707\<rparr>,
      \<lparr>District = Some ''Chennai'', Year = Some 2021, Minimum = Some 3,
       Maximum = Some (Float64 5), Latitude = Some 13.0827, Longitude = Some 80.2707\<rparr>]
   = [\<lparr>st_District = ''Chennai'', st_Year = 2021, Mean_Min = Some 3.5, Mean_Max = Some 5.5,
       Median_Min = Some 3.5, Median_Max = Some 5.5, Range_MinMax = Some (Float64 1)\<rparr>]"
  by code_simp

section \<open>Properties of the recharge / decline computation\<close>

lemma yearly_mean_eq:
  "yearly_mean df =
     map (\<lambda>k. \<lparr>yr_District = fst k, yr_Year = snd k,
                 yr_Minimum = mean (map Minimum (group_rows district_year df k))\<rparr>)
       (group_keys district_year df)"
  unfolding yearly_mean_def
  by (rule sort_key_id_if_sorted) (simp add: comp_def sorted_group_keys)

lemma group_diff_fields:
  "map yr_District (group_diff prev rows) = map yr_District rows"
  "map yr_Year (group_diff prev rows) = map yr_Year rows"
  "map yr_Minimum (group_diff prev rows) = map yr_Minimum rows"
  by (induction rows arbitrary: prev) simp_all

lemma group_diff_filter_fields:
  "map yr_Year (filter (\<lambda>r. yr_District r = d) (group_diff prev rows))
     = map yr_Year (filter (\<lambda>r. yr_District r = d) rows)"
  "map yr_Minimum (filter (\<lambda>r. yr_District r = d) (group_diff prev rows))
     = map yr_Minimum (filter (\<lambda>r. yr_District r = d) rows)"
  by (induction rows arbitrary: prev) simp_all

lemma group_diff_filter_delta:
  "map DeltaWL (filter (\<lambda>r. yr_District r = d) (group_diff prev rows))
     = successive_diff (prev d) (map yr_Minimum (filter (\<lambda>r. yr_District r = d) rows))"
  by (induction rows arbitrary: prev) simp_all

lemma successive_diff_length [simp]: "length (successive_diff p ms) = length ms"
  by (induction ms arbitrary: p) simp_all

lemma successive_diff_nth:
  "i < length ms \<Longrightarrow>
   successive_diff p ms ! i =
     (if i = 0 then (case p of None \<Rightarrow> None | Some q \<Rightarrow> nan_sub (ms ! 0) q)
      else nan_sub (ms ! i) (ms ! (i - 1)))"
proof (induction ms arbitrary: p i)
  case Nil
  then show ?case by simp
next
  case (Cons m ms)
  show ?case
  proof (cases i)
    case 0
    then show ?thesis by (simp cong: option.case_cong)
  next
    case (Suc j)
    with Cons.prems have "j < length ms" by simp
    from Cons.IH [OF this, of "Some m"] Suc show ?thesis
      by (cases j) simp_all
  qed
qed

lemma sorted_snd_same_fst:
  fixes ks :: "('a::linorder \<times> 'b::linorder) list"
  assumes "sorted ks"
  shows "sorted (map snd (filter (\<lambda>k. fst k = d) ks))"
  using assms
proof (induction ks)
  case Nil
  then show ?case by simp
next
  case (Cons k ks)
  then have le: "\<forall>k' \<in> set ks. k \<le> k'" and s: "sorted ks" by simp_all
  show ?case
  proof (cases "fst k = d")
    case True
    have "\<forall>k' \<in> set ks. fst k' = d \<longrightarrow> snd k \<le> snd k'"
      using le True by (auto simp: less_eq_prod_def)
    with Cons.IH [OF s] True show ?thesis by auto
  next
    case False
    with Cons.IH [OF s] show ?thesis by simp
  qed
qed

lemma distinct_snd_same_fst:
  assumes "distinct ks"
  shows "distinct (map snd (filter (\<lambda>k. fst k = d) ks))"
proof -
  have "inj_on snd (set (filter (\<lambda>k. fst k = d) ks))"
    by (auto simp: inj_on_def prod_eq_iff)
  with assms show ?thesis by (simp add: distinct_map)
qed

lemma years_of_district:
  "map snd (filter (\<lambda>k. fst k = d) (group_keys district_year df))
     = sorted_list_of_set {y. \<exists>r \<in> set df. District r = Some d \<and> Year r = Some y}"
proof -
  let ?ys = "map snd (filter (\<lambda>k. fst k = d) (group_keys district_year df))"
  have "set ?ys = snd ` {k \<in> set (group_keys district_year df). fst k = d}"
    by simp
  also have "\<dots> = {y. (d, y) \<in> set (group_keys district_year df)}"
    by (auto simp: image_iff)
  also have "\<dots> = {y. \<exists>r \<in> set df. District r = Some d \<and> Year r = Some y}"
    by (simp add: set_group_keys district_year_Some)
  finally have set_ys: "set ?ys = {y. \<exists>r \<in> set df. District r = Some d \<and> Year r = Some y}" .
  have "sorted ?ys" by (rule sorted_snd_same_fst) (rule sorted_group_keys)
  moreover have "distinct ?ys" by (rule distinct_snd_same_fst) (rule distinct_group_keys)
  ultimately have "sorted_list_of_set (set ?ys) = ?ys"
    by (rule sorted_list_of_set.idem_if_sorted_distinct)
  with set_ys show ?thesis by simp
qed

lemma yearly_mean_of_district:
  "filter (\<lambda>r. yr_District r = d) (yearly_mean df) =
     map (\<lambda>k. \<lparr>yr_District = d, yr_Year = snd k,
                 yr_Minimum = mean (map Minimum
                   (filter (\<lambda>r. District r = Some d \<and> Year r = Some (snd k)) df))\<rparr>)
       (filter (\<lambda>k. fst k = d) (group_keys district_year df))"
proof -
  have "filter (\<lambda>r. yr_District r = d) (map (\<lambda>k. \<lparr>yr_District = fst k, yr_Year = snd k,
                 yr_Minimum = mean (map Minimum (group_rows district_year df k))\<rparr>) ks)
        = map (\<lambda>k. \<lparr>yr_District = d, yr_Year = snd k,
                 yr_Minimum = mean (map Minimum
                   (filter (\<lambda>r. District r = Some d \<and> Year r = Some (snd k)) df))\<rparr>)
            (filter (\<lambda>k. fst k = d) ks)" for ks
  proof (induction ks)
    case Nil
    then show ?case by simp
  next
    case (Cons k ks)
    obtain d' y where k: "k = (d', y)" by (cases k)
    from Cons show ?case by (simp add: k group_rows_district_year)
  qed
  then show ?thesis by (simp only: yearly_mean_eq)
qed

text \<open>
  C2. Take the rows of \<^verbatim>\<open>yearly_change\<close> of one district, in table order. Their years
  are the years present for the district, ascending; the Minimum of a row is the mean
  Minimum of the district in that year; the DeltaWL of the first row (the smallest year)
  is missing, and the DeltaWL of every later row is its Minimum minus the Minimum of the
  row before it, the previous year present (missing when one of the two means is).
\<close>

theorem yearly_change_delta:
  "let rows = filter (\<lambda>r. yr_District r = d) (yearly_change df)
   in map yr_Year rows
        = sorted_list_of_set {y. \<exists>r \<in> set df. District r = Some d \<and> Year r = Some y}
      \<and> (\<forall>i < length rows.
           yr_Minimum (rows ! i)
             = mean (map Minimum
                  (filter (\<lambda>r. District r = Some d \<and> Year r = Some (yr_Year (rows ! i))) df)))
      \<and> (\<forall>i < length rows.
           DeltaWL (rows ! i)
             = (if i = 0 then None
                else nan_sub (yr_Minimum (rows ! i)) (yr_Minimum (rows ! (i - 1)))))"
proof -
  define rows where "rows = filter (\<lambda>r. yr_District r = d) (yearly_change df)"
  define ms where "ms = filter (\<lambda>r. yr_District r = d) (yearly_mean df)"
  have years: "map yr_Year rows = map yr_Year ms"
    and mins: "map yr_Minimum rows = map yr_Minimum ms"
    and deltas: "map DeltaWL rows = successive_diff None (map yr_Minimum ms)"
    unfolding rows_def ms_def yearly_change_def
    by (simp_all add: group_diff_filter_fields group_diff_filter_delta)
  have len: "length rows = length ms"
    using years by (metis length_map)
  have 1: "map yr_Year rows
        = sorted_list_of_set {y. \<exists>r \<in> set df. District r = Some d \<and> Year r = Some y}"
    unfolding years ms_def yearly_mean_of_district
    by (simp add: comp_def years_of_district)
  have 2: "yr_Minimum (rows ! i)
             = mean (map Minimum
                  (filter (\<lambda>r. District r = Some d \<and> Year r = Some (yr_Year (rows ! i))) df))"
    if i: "i < length rows" for i
  proof -
    from i len have im: "i < length ms" by simp
    have "yr_Minimum (rows ! i) = map yr_Minimum rows ! i" using i by simp
    also have "\<dots> = yr_Minimum (ms ! i)" using im by (simp add: mins)
    finally have a: "yr_Minimum (rows ! i) = yr_Minimum (ms ! i)" .
    have "yr_Year (rows ! i) = map yr_Year rows ! i" using i by simp
    also have "\<dots> = yr_Year (ms ! i)" using im by (simp add: years)
    finally have b: "yr_Year (rows ! i) = yr_Year (ms ! i)" .
    from im have "ms ! i \<in> set ms" by simp
    then have "yr_Minimum (ms ! i)
             = mean (map Minimum
                  (filter (\<lambda>r. District r = Some d \<and> Year r = Some (yr_Year (ms ! i))) df))"
      unfolding ms_def yearly_mean_of_district by auto
    with a b show ?thesis by simp
  qed
  have 3: "DeltaWL (rows ! i)
             = (if i = 0 then None
                else nan_sub (yr_Minimum (rows ! i)) (yr_Minimum (rows ! (i - 1))))"
    if i: "i < length rows" for i
  proof -
    have "DeltaWL (rows ! i) = map DeltaWL rows ! i" using i by simp
    also have "\<dots> = successive_diff None (map yr_Minimum rows) ! i"
      by (simp only: deltas mins)
    also have "\<dots> = (if i = 0 then None
                else nan_sub (map yr_Minimum rows ! i) (map yr_Minimum rows ! (i - 1)))"
      using i by (simp add: successive_diff_nth)
    also have "\<dots> = (if i = 0 then None
                else nan_sub (yr_Minimum (rows ! i)) (yr_Minimum (rows ! (i - 1))))"
      using i by simp
    finally show ?thesis .
  qed
  from 1 2 3 show ?thesis
    unfolding Let_def rows_def [symmetric] by blast
qed

theorem yearly_change_delta_witness:
  "yearly_change
     [\<lparr>District = Some ''Chennai'', Year = Some 2021, Minimum = Some 4, Maximum = Some (Float64 6),
       Latitude = None, Longitude = None\<rparr>,
      \<lparr>District = Some ''Salem'', Year = Some 2020, Minimum = Some 7, Maximum = Some (Float64 9),
       Latitude = None, Longitude = None\<rparr>,
      \<lparr>District = Some ''Chennai'', Year = Some 2020, Minimum = Some 3, Maximum = Some (Float64 5),
       Latitude = None, Longitude = None\<rparr>,
      \<lparr>District = Some ''Chennai'', Year = Some 2023, Minimum = Some 2, Maximum = Some (Float64 5),
       Latitude = None, Longitude = None\<rparr>,
      \<lparr>District = Some ''Chennai'', Year = Some 2021, Minimum = Some 6, Maximum = Some (Float64 8),
       Latitude = None, Longitude = None\<rparr>]
   = [\<lparr>yr_District = ''Chennai'', yr_Year = 2020, yr_Minimum = Some 3, DeltaWL = None\<rparr>,
      \<lparr>yr_District = ''Chennai'', yr_Year = 2021, yr_Minimum = Some 5, DeltaWL = Some 2\<rparr>,
      \<lparr>yr_District = ''Chennai'', yr_Year = 2023, yr_Minimum = Some 2, DeltaWL = Some (- 3)\<rparr>,
      \<lparr>yr_District = ''Salem'', yr_Year = 2020, yr_Minimum = Some 7, DeltaWL = None\<rparr>]"
proof -
  have e: "yearly_change
     [\<lparr>District = Some ''Chennai'', Year = Some 2021, Minimum = Some 4, Maximum = Some (Float64 6),
       Latitude = None, Longitude = None\<rparr>,
      \<lparr>District = Some ''Salem'', Year = Some 2020, Minimum = Some 7, Maximum = Some (Float64 9),
       Latitude = None, Longitude = None\<rparr>,
      \<lparr>District = Some ''Chennai'', Year = Some 2020, Minimum = Some 3, Maximum = Some (Float64 5),
       Latitude = None, Longitude = None\<rparr>,
      \<lparr>District = Some ''Chennai'', Year = Some 2023, Minimum = Some 2, Maximum = Some (Float64 5),
       Latitude = None, Longitude = None\<rparr>,
      \<lparr>District = Some ''Chennai'', Year = Some 2021, Minimum = Some 6, Maximum = Some (Float64 8),
       Latitude = None, Longitude = None\<rparr>]
   = [\<lparr>yr_District = ''Chennai'', yr_Year = 2020, yr_Minimum = Some 3, DeltaWL = None\<rparr>,
      \<lparr>yr_District = ''Chennai'', yr_Year = 2021, yr_Minimum = Some 5, DeltaWL = Some 2\<rparr>,
      \<lparr>yr_District = ''Chennai'', yr_Year = 2023, yr_Minimum = Some 2, DeltaWL = Some (- 3)\<rparr>,
      \<lparr>yr_District = ''Salem'', yr_Year = 2020, yr_Minimum = Some 7, DeltaWL = None\<rparr>]"
    by code_simp
  show ?thesis
    using yearly_change_delta [of "''Chennai''"
     "[\<lparr>District = Some ''Chennai'', Year = Some 2021, Minimum = Some 4, Maximum = Some (Float64 6),
       Latitude = None, Longitude = None\<rparr>,
      \<lparr>District = Some ''Salem'', Year = Some 2020, Minimum = Some 7, Maximum = Some (Float64 9),
       Latitude = None, Longitude = None\<rparr>,
      \<lparr>District = Some ''Chennai'', Year = Some 2020, Minimum = Some 3, Maximum = Some (Float64 5),
       Latitude = None, Longitude = None\<rparr>,
      \<lparr>District = Some ''Chennai'', Year = Some 2023, Minimum = Some 2, Maximum = Some (Float64 5),
       Latitude = None, Longitude = None\<rparr>,
      \<lparr>District = Some ''Chennai'', Year = Some 2021, Minimum = Some 6, Maximum = Some (Float64 8),
       Latitude = None, Longitude = None\<rparr>]"]
    by (simp only: e)
qed

lemma trend_label_cases:
  "trend_label x =
     (case x of
        None \<Rightarrow> Stable
      | Some v \<Rightarrow> if 0 < v then Recharge else if v < 0 then Decline else Stable)"
  by (simp add: trend_label_def nan_greater_def nan_less_def split: option.splits)

text \<open>
  C3. The claim: the label is Recharge exactly for a positive DeltaWL, Decline exactly for
  a negative one, Stable exactly for zero, and blank when DeltaWL is missing. The program
  compares a missing DeltaWL with zero twice, both comparisons are false, and the row gets
  the label Stable (\<open>trend_label_cases\<close>). With one district and the years 2020 and 2021
  the table is shown, and its 2020 row, which has no DeltaWL, reads Stable.
\<close>

theorem first_year_labelled_stable:
  "trend_table (yearly_change
     [\<lparr>District = Some ''Chennai'', Year = Some 2020, Minimum = Some 4, Maximum = Some (Float64 6),
       Latitude = Some 13.0827, Longitude = Some 80.2707\<rparr>,
      \<lparr>District = Some ''Chennai'', Year = Some 2021, Minimum = Some 3, Maximum = Some (Float64 5),
       Latitude = Some 13.0827, Longitude = Some 80.2707\<rparr>])
   = [\<lparr>yr_District = ''Chennai'', yr_Year = 2020, yr_Minimum = Some 4, DeltaWL = None,
       Trend = Stable\<rparr>,
      \<lparr>yr_District = ''Chennai'', yr_Year = 2021, yr_Minimum = Some 3, DeltaWL = Some (- 1),
       Trend = Decline\<rparr>]"
  by code_simp

section \<open>Properties of the panels\<close>

text \<open>
  C4, as amended. The map has one marker per station (a District with its Latitude and
  Longitude), at the station's coordinates. The marker is blue exactly when the station's
  mean Minimum is a number below 5, and red otherwise: when the mean is 5 or more, or
  missing. (The claim has the two colours the other way round.)
\<close>

theorem marker_colour:
  "length (circle_markers df) = length (group_keys station df) \<and>
   (\<forall>i < length (circle_markers df).
      let k = group_keys station df ! i;
          avg = mean (map Minimum (filter (\<lambda>r. station r = Some k) df));
          mk = circle_markers df ! i
      in location mk = snd k \<and>
         (color mk = ''blue'' \<longleftrightarrow> (\<exists>m. avg = Some m \<and> m < 5)) \<and>
         (color mk = ''red'' \<longleftrightarrow> \<not> (\<exists>m. avg = Some m \<and> m < 5)))"
proof (intro conjI allI impI)
  show len: "length (circle_markers df) = length (group_keys station df)"
    by (simp add: circle_markers_def avg_depth_def)
  fix i assume "i < length (circle_markers df)"
  with len have i: "i < length (group_keys station df)" by simp
  define k where "k = group_keys station df ! i"
  define avg where "avg = mean (map Minimum (filter (\<lambda>r. station r = Some k) df))"
  have mk: "circle_markers df ! i =
              \<lparr>location = snd k, radius = 6,
               color = (if nan_less avg 5 then ''blue'' else ''red'')\<rparr>"
    using i
    by (simp add: circle_markers_def avg_depth_def circle_marker_def k_def avg_def
        group_rows_station)
  have "nan_less avg 5 \<longleftrightarrow> (\<exists>m. avg = Some m \<and> m < 5)"
    by (cases avg) (simp_all add: nan_less_def)
  with mk have "location (circle_markers df ! i) = snd k \<and>
         (color (circle_markers df ! i) = ''blue'' \<longleftrightarrow> (\<exists>m. avg = Some m \<and> m < 5)) \<and>
         (color (circle_markers df ! i) = ''red'' \<longleftrightarrow> \<not> (\<exists>m. avg = Some m \<and> m < 5))"
    by simp
  then show "let k = group_keys station df ! i;
          avg = mean (map Minimum (filter (\<lambda>r. station r = Some k) df));
          mk = circle_markers df ! i
      in location mk = snd k \<and>
         (color mk = ''blue'' \<longleftrightarrow> (\<exists>m. avg = Some m \<and> m < 5)) \<and>
         (color mk = ''red'' \<longleftrightarrow> \<not> (\<exists>m. avg = Some m \<and> m < 5))"
    unfolding Let_def k_def avg_def .
qed

theorem marker_colour_witness:
  "circle_markers
     [\<lparr>District = Some ''Salem'', Year = Some 2021, Minimum = Some 7, Maximum = Some (Float64 9),
       Latitude = Some 11.6643, Longitude = Some 78.1460\<rparr>,
      \<lparr>District = Some ''Erode'', Year = Some 2021, Minimum = Some 2, Maximum = Some (Float64 6),
       Latitude = Some 11.3410, Longitude = Some 77.7172\<rparr>,
      \<lparr>District = Some ''Salem'', Year = Some 2022, Minimum = Some 5, Maximum = Some (Float64 8),
       Latitude = Some 11.6643, Longitude = Some 78.1460\<rparr>,
      \<lparr>District = Some ''Karur'', Year = Some 2022, Minimum = None, Maximum = None,
       Latitude = Some 10.9601, Longitude = Some 78.0766\<rparr>]
   = [\<lparr>location = (11.3410, 77.7172), radius = 6, color = ''blue''\<rparr>,
      \<lparr>location = (10.9601, 78.0766), radius = 6, color = ''red''\<rparr>,
      \<lparr>location = (11.6643, 78.1460), radius = 6, color = ''red''\<rparr>]"
proof -
  have e: "circle_markers
     [\<lparr>District = Some ''Salem'', Year = Some 2021, Minimum = Some 7, Maximum = Some (Float64 9),
       Latitude = Some 11.6643, Longitude = Some 78.1460\<rparr>,
      \<lparr>District = Some ''Erode'', Year = Some 2021, Minimum = Some 2, Maximum = Some (Float64 6),
       Latitude = Some 11.3410, Longitude = Some 77.7172\<rparr>,
      \<lparr>District = Some ''Salem'', Year = Some 2022, Minimum = Some 5, Maximum = Some (Float64 8),
       Latitude = Some 11.6643, Longitude = Some 78.1460\<rparr>,
      \<lparr>District = Some ''Karur'', Year = Some 2022, Minimum = None, Maximum = None,
       Latitude = Some 10.9601, Longitude = Some 78.0766\<rparr>]
   = [\<lparr>location = (11.3410, 77.7172), radius = 6, color = ''blue''\<rparr>,
      \<lparr>location = (10.9601, 78.0766), radius = 6, color = ''red''\<rparr>,
      \<lparr>location = (11.6643, 78.1460), radius = 6, color = ''red''\<rparr>]"
    by code_simp
  show ?thesis
    using marker_colour [of
     "[\<lparr>District = Some ''Salem'', Year = Some 2021, Minimum = Some 7, Maximum = Some (Float64 9),
       Latitude = Some 11.6643, Longitude = Some 78.1460\<rparr>,
      \<lparr>District = Some ''Erode'', Year = Some 2021, Minimum = Some 2, Maximum = Some (Float64 6),
       Latitude = Some 11.3410, Longitude = Some 77.7172\<rparr>,
      \<lparr>District = Some ''Salem'', Year = Some 2022, Minimum = Some 5, Maximum = Some (Float64 8),
       Latitude = Some 11.6643, Longitude = Some 78.1460\<rparr>,
      \<lparr>District = Some ''Karur'', Year = Some 2022, Minimum = None, Maximum = None,
       Latitude = Some 10.9601, Longitude = Some 78.0766\<rparr>]"]
    by (simp only: e)
qed

text \<open>The claim fails: a station whose mean Minimum is 4 gets a blue marker, not a red one.\<close>

theorem shallow_station_is_blue:
  "map ad_Minimum (avg_depth
     [\<lparr>District = Some ''Erode'', Year = Some 2021, Minimum = Some 4, Maximum = Some (Float64 6),
       Latitude = Some 11.3410, Longitude = Some 77.7172\<rparr>]) = [Some 4]
   \<and> map color (circle_markers
     [\<lparr>District = Some ''Erode'', Year = Some 2021, Minimum = Some 4, Maximum = Some (Float64 6),
       Latitude = Some 11.3410, Longitude = Some 77.7172\<rparr>]) = [''blue'']"
  by code_simp

text \<open>
  C8, as amended. On the empty dataset the stats panel shows its warning and does not call
  \<^verbatim>\<open>calc_stats\<close>. The recharge panel has no emptiness check: it runs its two
  aggregations, then shows its message because no DeltaWL is present; it never calls
  \<^verbatim>\<open>calc_stats\<close>. The map panel has no emptiness check either: whatever the dataset, it
  aggregates and calls \<^verbatim>\<open>folium.Map\<close>, which on the empty dataset raises
  \<^verbatim>\<open>ValueError\<close> for the undefined centre. The depth panel does not look at the rows at
  all.
\<close>

theorem panels_on_empty_dataset:
  "stats_panel [] = [St_subheader ''Descriptive Statistics'', St_warning No_data_available]
   \<and> recharge_panel [] =
       [St_subheader ''Recharge / Decline Analysis'', Groupby [''District'', ''Year''],
        Groupby [''District''], St_info Not_enough_yearly_data]
   \<and> Calc_stats \<notin> set (recharge_panel df)
   \<and> spatial_panel [] =
       ([St_subheader ''Spatial Comparison of Stations'',
         Groupby [''District'', ''Latitude'', ''Longitude''], Folium_Map (None, None)],
        Some ValueError)
   \<and> take 3 (fst (spatial_panel df)) =
       [St_subheader ''Spatial Comparison of Stations'',
        Groupby [''District'', ''Latitude'', ''Longitude''],
        Folium_Map (mean (map (\<lambda>r. Some (ad_Latitude r)) (avg_depth df)),
                    mean (map (\<lambda>r. Some (ad_Longitude r)) (avg_depth df)))]
   \<and> depth_panel cols df = depth_panel cols []"
proof (intro conjI)
  show "stats_panel [] = [St_subheader ''Descriptive Statistics'', St_warning No_data_available]"
    by (simp add: stats_panel_def empty_def)
  show "recharge_panel [] =
       [St_subheader ''Recharge / Decline Analysis'', Groupby [''District'', ''Year''],
        Groupby [''District''], St_info Not_enough_yearly_data]"
    by (simp add: recharge_panel_def yearly_change_def yearly_mean_def group_keys_def dropna_def)
  show "Calc_stats \<notin> set (recharge_panel df)"
    by (simp add: recharge_panel_def)
  show "spatial_panel [] =
       ([St_subheader ''Spatial Comparison of Stations'',
         Groupby [''District'', ''Latitude'', ''Longitude''], Folium_Map (None, None)],
        Some ValueError)"
    by (simp add: spatial_panel_def avg_depth_def group_keys_def dropna_def mean_def)
  show "take 3 (fst (spatial_panel df)) =
       [St_subheader ''Spatial Comparison of Stations'',
        Groupby [''District'', ''Latitude'', ''Longitude''],
        Folium_Map (mean (map (\<lambda>r. Some (ad_Latitude r)) (avg_depth df)),
                    mean (map (\<lambda>r. Some (ad_Longitude r)) (avg_depth df)))]"
    by (simp add: spatial_panel_def numeral_3_eq_3 Let_def)
  show "depth_panel cols df = depth_panel cols []"
    by (simp add: depth_panel_def)
qed

text \<open>
  The claim fails: on the empty dataset the recharge panel does perform its aggregations.
\<close>

theorem recharge_panel_aggregates_empty:
  "Groupby [''District'', ''Year''] \<in> set (recharge_panel [])
   \<and> Groupby [''District''] \<in> set (recharge_panel [])"
  by (simp add: recharge_panel_def)

lemma spatial_panel_with_station:
  "spatial_panel
     [\<lparr>District = Some ''Erode'', Year = Some 2021, Minimum = Some 4,
       Maximum = Some (Float64 6), Latitude = Some 11.3410, Longitude = Some 77.7172\<rparr>]
   = ([St_subheader ''Spatial Comparison of Stations'',
       Groupby [''District'', ''Latitude'', ''Longitude''],
       Folium_Map (Some 11.3410, Some 77.7172),
       CircleMarker \<lparr>location = (11.3410, 77.7172), radius = 6, color = ''blue''\<rparr>,
       St_folium], None)"
  by code_simp

end
